theory Spec2Isabelle
  imports
    Complex_Main
    "HOL-Library.AList"
    "HOL-Library.List_Lexorder"
    "HOL-Library.Sublist"
begin

section \<open>The values \<open>json.load\<close> produces\<close>

text \<open>
  \<open>scripts/unrelease-cli.py\<close> reads \<open>cli-releases.json\<close> with \<open>json.load\<close> and works on
  whatever value comes back. A Python \<open>dict\<close> keeps its keys in insertion order, and the
  order decides which of two equally ranked versions becomes \<open>latest\<close>, so a dictionary is
  an association list here: \<open>map_of\<close> looks a key up, \<open>AList.update\<close> assigns (in place
  when the key exists, at the end otherwise) and \<open>AList.delete\<close> removes a key.
  A \<open>str\<close> is modelled by the list of its UTF-8 bytes, which is what \<open>print\<close>
  writes. A finite float is the rational
  it denotes; \<open>JNonFinite\<close> stands for \<open>NaN\<close>, \<open>Infinity\<close> and \<open>-Infinity\<close>, which
  \<open>json.load\<close> accepts too.
\<close>

datatype json =
    JNull
  | JBool bool
  | JInt int
  | JFloat rat
  | JNonFinite
  | JStr string
  | JList "json list"
  | JDict "(string \<times> json) list"

datatype py_exn =
    FileNotFoundError
  | JSONDecodeError
  | AttributeError
  | TypeError
  | KeyError

text \<open>Truth value of an object, as \<open>or\<close> tests it.\<close>

fun truthy :: "json \<Rightarrow> bool" where
  "truthy JNull = False"
| "truthy (JBool b) = b"
| "truthy (JInt n) = (n \<noteq> 0)"
| "truthy (JFloat q) = (q \<noteq> 0)"
| "truthy JNonFinite = True"
| "truthy (JStr s) = (s \<noteq> [])"
| "truthy (JList xs) = (xs \<noteq> [])"
| "truthy (JDict kv) = (kv \<noteq> [])"

text \<open>
  \<open>c.get(k, default)\<close>: only a \<open>dict\<close> has the method, every other value raises
  \<open>AttributeError\<close>.
\<close>

fun py_get :: "json \<Rightarrow> string \<Rightarrow> json \<Rightarrow> py_exn + json" where
  "py_get (JDict kv) k dflt = Inr (case map_of kv k of None \<Rightarrow> dflt | Some x \<Rightarrow> x)"
| "py_get _ k dflt = Inl AttributeError"

text \<open>
  \<open>v in c\<close> for a \<open>str\<close> \<open>v\<close>: key membership in a \<open>dict\<close>, element equality in a
  \<open>list\<close>, substring test in a \<open>str\<close>; the other values are not iterable.
\<close>

fun py_in :: "string \<Rightarrow> json \<Rightarrow> py_exn + bool" where
  "py_in v (JDict kv) = Inr (v \<in> set (map fst kv))"
| "py_in v (JList xs) = Inr (JStr v \<in> set xs)"
| "py_in v (JStr s) = Inr (sublist v s)"
| "py_in v _ = Inl TypeError"

text \<open>\<open>c.keys()\<close>, in insertion order.\<close>

fun py_keys :: "json \<Rightarrow> py_exn + string list" where
  "py_keys (JDict kv) = Inr (map fst kv)"
| "py_keys _ = Inl AttributeError"

text \<open>\<open>c[k]\<close>, \<open>c[k] = x\<close> and \<open>del c[k]\<close> for a \<open>str\<close> \<open>k\<close>.\<close>

fun py_getitem :: "json \<Rightarrow> string \<Rightarrow> py_exn + json" where
  "py_getitem (JDict kv) k = (case map_of kv k of None \<Rightarrow> Inl KeyError | Some x \<Rightarrow> Inr x)"
| "py_getitem _ k = Inl TypeError"

fun py_setitem :: "json \<Rightarrow> string \<Rightarrow> json \<Rightarrow> py_exn + json" where
  "py_setitem (JDict kv) k x = Inr (JDict (AList.update k x kv))"
| "py_setitem _ k x = Inl TypeError"

fun py_delitem :: "json \<Rightarrow> string \<Rightarrow> py_exn + json" where
  "py_delitem (JDict kv) k =
     (if k \<in> set (map fst kv) then Inr (JDict (AList.delete k kv)) else Inl KeyError)"
| "py_delitem _ k = Inl TypeError"


section \<open>\<open>str.split\<close> and \<open>int\<close>\<close>

text \<open>
  \<open>s.split(sep)\<close> for a one-character separator: every occurrence splits, empty pieces
  are kept, and the result has at least one piece.
\<close>

fun split_acc :: "char \<Rightarrow> string \<Rightarrow> string \<Rightarrow> string list" where
  "split_acc sep cur [] = [rev cur]"
| "split_acc sep cur (c # cs) =
     (if c = sep then rev cur # split_acc sep [] cs else split_acc sep (c # cur) cs)"

definition split :: "string \<Rightarrow> char \<Rightarrow> string list" where
  "split s sep = split_acc sep [] s"

text \<open>
  \<open>int(s)\<close> in base 10. CPython first rewrites the string to ASCII: a character below
  128 stays, a blank beyond ASCII becomes a space, a decimal digit beyond ASCII (as the
  Arabic-Indic digits) becomes the ASCII digit of its value, and any other character
  makes the conversion fail. On the ASCII text, blanks (tab, line feed, vertical tab,
  form feed, carriage return, space) around the number are skipped, one sign may precede
  the digits, single underscores may separate digits, and since CPython 3.11 a number
  of more than 4300 digits is refused. \<open>None\<close> is the \<open>ValueError\<close>.

  The two tables are those of the Unicode database 14.0 that CPython 3.11 carries: the
  decimal digits come in runs of ten, listed by the code point of their zero.
\<close>

definition unicode_spaces :: "nat list" where
  "unicode_spaces =
     [0x85, 0xA0, 0x1680, 0x2000, 0x2001, 0x2002, 0x2003, 0x2004, 0x2005, 0x2006, 0x2007,
      0x2008, 0x2009, 0x200A, 0x2028, 0x2029, 0x202F, 0x205F, 0x3000]"

definition unicode_zeros :: "nat list" where
  "unicode_zeros =
     [0x660, 0x6F0, 0x7C0, 0x966, 0x9E6, 0xA66, 0xAE6, 0xB66, 0xBE6, 0xC66, 0xCE6, 0xD66,
      0xDE6, 0xE50, 0xED0, 0xF20, 0x1040, 0x1090, 0x17E0, 0x1810, 0x1946, 0x19D0, 0x1A80,
      0x1A90, 0x1B50, 0x1BB0, 0x1C40, 0x1C50, 0xA620, 0xA8D0, 0xA900, 0xA9D0, 0xA9F0,
      0xAA50, 0xABF0, 0xFF10, 0x104A0, 0x10D30, 0x11066, 0x110F0, 0x11136, 0x111D0,
      0x112F0, 0x11450, 0x114D0, 0x11650, 0x116C0, 0x11730, 0x118E0, 0x11950, 0x11C50,
      0x11D50, 0x11DA0, 0x16A60, 0x16AC0, 0x16B50, 0x1D7CE, 0x1D7D8, 0x1D7E2, 0x1D7EC,
      0x1D7F6, 0x1E140, 0x1E2F0, 0x1E950, 0x1FBF0]"

definition unicode_decimal :: "nat \<Rightarrow> nat option" where
  "unicode_decimal c =
     (case find (\<lambda>z. z \<le> c \<and> c < z + 10) unicode_zeros of
        None \<Rightarrow> None
      | Some z \<Rightarrow> Some (c - z))"

text \<open>
  The code points of a \<open>str\<close>, read off its UTF-8 bytes. A byte sequence that is not
  UTF-8 is the image of no \<open>str\<close>.
\<close>

definition continuation :: "char \<Rightarrow> bool" where
  "continuation c = ((128::nat) \<le> of_char c \<and> of_char c < (192::nat))"

definition low6 :: "char \<Rightarrow> nat" where
  "low6 c = of_char c - 128"

fun utf8_decode :: "string \<Rightarrow> nat list option" where
  "utf8_decode [] = Some []"
| "utf8_decode (b # bs) =
     (if of_char b < (128::nat) then map_option ((#) (of_char b)) (utf8_decode bs)
      else if of_char b < (192::nat) then None
      else if of_char b < (224::nat) then
        (case bs of
           c1 # r \<Rightarrow>
             if continuation c1
             then map_option ((#) ((of_char b - 192) * 64 + low6 c1)) (utf8_decode r)
             else None
         | _ \<Rightarrow> None)
      else if of_char b < (240::nat) then
        (case bs of
           c1 # c2 # r \<Rightarrow>
             if continuation c1 \<and> continuation c2
             then map_option ((#) (((of_char b - 224) * 64 + low6 c1) * 64 + low6 c2))
                    (utf8_decode r)
             else None
         | _ \<Rightarrow> None)
      else if of_char b < (248::nat) then
        (case bs of
           c1 # c2 # c3 # r \<Rightarrow>
             if continuation c1 \<and> continuation c2 \<and> continuation c3
             then map_option
                    ((#) ((((of_char b - 240) * 64 + low6 c1) * 64 + low6 c2) * 64 + low6 c3))
                    (utf8_decode r)
             else None
         | _ \<Rightarrow> None)
      else None)"

definition to_ascii :: "nat \<Rightarrow> char option" where
  "to_ascii c =
     (if c < 128 then Some (char_of c)
      else if c \<in> set unicode_spaces then Some CHR '' ''
      else (case unicode_decimal c of None \<Rightarrow> None | Some d \<Rightarrow> Some (char_of (48 + d))))"

definition is_space :: "char \<Rightarrow> bool" where
  "is_space c = ((9::nat) \<le> of_char c \<and> of_char c \<le> (13::nat) \<or> of_char c = (32::nat))"

definition digit_of :: "char \<Rightarrow> nat option" where
  "digit_of c =
     (if (48::nat) \<le> of_char c \<and> of_char c \<le> (57::nat) then Some (of_char c - 48) else None)"

fun scan_digits :: "nat \<Rightarrow> string \<Rightarrow> nat option" where
  "scan_digits acc [] = Some acc"
| "scan_digits acc (c # cs) =
     (if c = CHR ''_'' then
        (case cs of
           [] \<Rightarrow> None
         | d # ds \<Rightarrow>
             (case digit_of d of None \<Rightarrow> None | Some n \<Rightarrow> scan_digits (10 * acc + n) ds))
      else
        (case digit_of c of None \<Rightarrow> None | Some n \<Rightarrow> scan_digits (10 * acc + n) cs))"

definition int_max_str_digits :: nat where
  "int_max_str_digits = 4300"

text \<open>The conversion of the ASCII text, and \<open>int\<close> on a \<open>str\<close>.\<close>

definition long_from_string :: "string \<Rightarrow> int option" where
  "long_from_string s =
     (let s1 = dropWhile is_space s;
          neg = (s1 \<noteq> [] \<and> hd s1 = CHR ''-'');
          s2 = (if s1 \<noteq> [] \<and> (hd s1 = CHR ''+'' \<or> hd s1 = CHR ''-'') then tl s1 else s1);
          s3 = rev (dropWhile is_space (rev s2))
      in case s3 of
           [] \<Rightarrow> None
         | c # cs \<Rightarrow>
             (case digit_of c of
                None \<Rightarrow> None
              | Some d \<Rightarrow>
                  (case scan_digits d cs of
                     None \<Rightarrow> None
                   | Some n \<Rightarrow>
                       if length (filter (\<lambda>x. x \<noteq> CHR ''_'') s3) > int_max_str_digits then None
                       else Some (if neg then - int n else int n))))"

definition py_int :: "string \<Rightarrow> int option" where
  "py_int s =
     (case utf8_decode s of
        None \<Rightarrow> None
      | Some cps \<Rightarrow>
          (case those (map to_ascii cps) of
             None \<Rightarrow> None
           | Some a \<Rightarrow> long_from_string a))"


section \<open>The script\<close>

text \<open>
  \<open>version_key\<close> (lines 29 to 33): the tuple of the integers between the dots, and
  \<open>(0, 0, 0)\<close> when a piece does not convert. Tuples of integers compare as lists do
  under the lexicographic order, a proper prefix being smaller.
\<close>

definition version_key :: "string \<Rightarrow> int list" where
  "version_key v =
     (case those (map py_int (split v CHR ''.'')) of
        Some t \<Rightarrow> t
      | None \<Rightarrow> [0, 0, 0])"

text \<open>
  What the script sees of the world: \<open>sys.argv\<close>, the content of \<open>cli-releases.json\<close>
  (\<open>None\<close> when there is no such file), the clock reading already formatted by
  \<open>strftime\<close>, and the two library functions it calls on the file, \<open>json.load\<close> (\<open>None\<close>
  when the text is not JSON) and \<open>json.dump\<close> with \<open>indent=2\<close>. Failures of the
  operating system other than a missing file (permissions, a full disk) are left out.
\<close>

record env =
  argv :: "string list"
  file_content :: "string option"
  utcnow :: string
  json_load :: "string \<Rightarrow> json option"
  json_dump :: "json \<Rightarrow> string"

datatype stream = Stdout | Stderr

datatype mode = Read | Write

datatype event = Print stream string | OpenFile mode | Dump json

datatype status = Success | SysExit nat | Uncaught py_exn

text \<open>
  The exit status of the process: an uncaught exception ends it with status 1. The
  traceback the interpreter prints then is not recorded in the trace.
\<close>

fun exit_status :: "status \<Rightarrow> nat" where
  "exit_status Success = 0"
| "exit_status (SysExit n) = n"
| "exit_status (Uncaught e) = 1"

record outcome =
  trace :: "event list"
  file_after :: "string option"
  status :: status

text \<open>
  The trace lists what the run did in order: the lines printed, the calls of \<open>open\<close> on
  \<open>cli-releases.json\<close>, and the call of \<open>json.dump\<close> with the value it was given.
  \<open>dumped\<close> reads the values written off an outcome.
\<close>

definition dumped :: "outcome \<Rightarrow> json list" where
  "dumped r = concat (map (\<lambda>e. case e of Dump d \<Rightarrow> [d] | _ \<Rightarrow> []) (trace r))"

text \<open>Leaving before the file is opened for writing: the file is as it was.\<close>

definition stop :: "env \<Rightarrow> event list \<Rightarrow> status \<Rightarrow> outcome" where
  "stop E tr st = \<lparr>trace = tr, file_after = file_content E, status = st\<rparr>"

text \<open>Line 20: \<open>version_to_remove in data.get('releases', {})\<close>.\<close>

definition version_exists :: "json \<Rightarrow> string \<Rightarrow> py_exn + bool" where
  "version_exists data v =
     (case py_get data ''releases'' (JDict []) of
        Inl e \<Rightarrow> Inl e
      | Inr r \<Rightarrow> py_in v r)"

text \<open>
  Lines 25 to 38: the new \<open>latest\<close>. \<open>list.sort\<close> is stable and so is \<open>sort_key\<close>;
  \<open>remaining[-1]\<close> is read on a list that is not empty.
\<close>

definition update_latest :: "json \<Rightarrow> string \<Rightarrow> event list \<times> (py_exn + json)" where
  "update_latest data v =
     (case py_get data ''latest'' JNull of
        Inl e \<Rightarrow> ([], Inl e)
      | Inr l \<Rightarrow>
          if l \<noteq> JStr v then ([], Inr data)
          else
            (case py_get data ''releases'' JNull of
               Inl e \<Rightarrow> ([], Inl e)
             | Inr r \<Rightarrow>
                 (case py_keys (if truthy r then r else JDict []) of
                    Inl e \<Rightarrow> ([], Inl e)
                  | Inr ks \<Rightarrow>
                      (let remaining = filter (\<lambda>k. k \<noteq> v) ks in
                       if remaining \<noteq> [] then
                         (let new = last (sort_key version_key remaining) in
                          case py_setitem data ''latest'' (JStr new) of
                            Inl e \<Rightarrow> ([], Inl e)
                          | Inr data' \<Rightarrow>
                              ([Print Stdout (''  Updated latest to '' @ new)], Inr data'))
                       else ([Print Stdout ''  Warning: No other versions found''], Inr data)))))"

text \<open>
  Line 41: \<open>del data['releases'][version_to_remove]\<close>. The inner dictionary is changed
  in place, so \<open>data\<close> holds the changed one under the same key, at the same position.
\<close>

definition remove_version :: "json \<Rightarrow> string \<Rightarrow> py_exn + json" where
  "remove_version data v =
     (case py_getitem data ''releases'' of
        Inl e \<Rightarrow> Inl e
      | Inr r \<Rightarrow>
          (case py_delitem r v of
             Inl e \<Rightarrow> Inl e
           | Inr r' \<Rightarrow> py_setitem data ''releases'' r'))"

definition usage_line :: string where
  "usage_line = ''Usage: unrelease-cli.py <version>''"

definition not_found_line :: "string \<Rightarrow> string" where
  "not_found_line v = ''Error: Version '' @ v @ '' not found in cli-releases.json''"

definition removed_line :: "string \<Rightarrow> string" where
  "removed_line v = ''  Removed '' @ v @ '' from releases''"

definition updated_line :: string where
  "updated_line = ''  '' @ [CHR 0xE2, CHR 0x9C, CHR 0x93] @ '' Manifest updated''"

definition main :: "env \<Rightarrow> outcome" where
  "main E =
     (if length (argv E) \<noteq> 2 then stop E [Print Stderr usage_line] (SysExit 1)
      else
        (let version_to_remove = argv E ! 1 in
         case file_content E of
           None \<Rightarrow> stop E [OpenFile Read] (Uncaught FileNotFoundError)
         | Some content \<Rightarrow>
         (case json_load E content of
           None \<Rightarrow> stop E [OpenFile Read] (Uncaught JSONDecodeError)
         | Some data \<Rightarrow>
         (case version_exists data version_to_remove of
           Inl e \<Rightarrow> stop E [OpenFile Read] (Uncaught e)
         | Inr False \<Rightarrow>
             stop E [OpenFile Read, Print Stderr (not_found_line version_to_remove)] (SysExit 1)
         | Inr True \<Rightarrow>
         (case update_latest data version_to_remove of
           (out, Inl e) \<Rightarrow> stop E (OpenFile Read # out) (Uncaught e)
         | (out, Inr data1) \<Rightarrow>
         (case remove_version data1 version_to_remove of
           Inl e \<Rightarrow> stop E (OpenFile Read # out) (Uncaught e)
         | Inr data2 \<Rightarrow>
         (case py_setitem data2 ''updated_at'' (JStr (utcnow E)) of
           Inl e \<Rightarrow>
             stop E (OpenFile Read # out @ [Print Stdout (removed_line version_to_remove)])
               (Uncaught e)
         | Inr data3 \<Rightarrow>
             \<lparr>trace =
                OpenFile Read # out @
                [Print Stdout (removed_line version_to_remove), OpenFile Write, Dump data3,
                 Print Stdout updated_line],
              file_after = Some (json_dump E data3 @ [CHR 0x0A]),
              status = Success\<rparr>)))))))"


section \<open>Example runs\<close>

text \<open>
  A manifest of the documented shape, and a world in which the file holds it: the text
  \<open>old\<close> parses to the manifest, and the name of the script is \<open>sys.argv[0]\<close>.
\<close>

definition manifest :: "json \<Rightarrow> (string \<times> json) list \<Rightarrow> json" where
  "manifest l rs =
     JDict [(''latest'', l), (''releases'', JDict rs),
            (''updated_at'', JStr ''2023-01-01T00:00:00Z'')]"

definition run_env :: "json \<Rightarrow> string list \<Rightarrow> env" where
  "run_env data args =
     \<lparr>argv = ''unrelease-cli.py'' # args,
      file_content = Some ''old'',
      utcnow = ''2024-05-06T07:08:09Z'',
      json_load = (\<lambda>s. if s = ''old'' then Some data else None),
      json_dump = (\<lambda>d. ''new'')\<rparr>"


section \<open>The invariant of the manifest\<close>

text \<open>
  The invariant the data model asks for: \<open>latest\<close>, when it is present and not
  \<open>null\<close>, is a string that is a key of \<open>releases\<close>.
\<close>

definition latest_ok :: "(string \<times> json) list \<Rightarrow> bool" where
  "latest_ok d =
     (case map_of d ''latest'' of
        None \<Rightarrow> True
      | Some JNull \<Rightarrow> True
      | Some (JStr s) \<Rightarrow>
          (case map_of d ''releases'' of
             Some (JDict rel) \<Rightarrow> s \<in> set (map fst rel)
           | _ \<Rightarrow> False)
      | Some _ \<Rightarrow> False)"


section \<open>Versions written as dotted decimals\<close>

text \<open>
  The conventional way to write a version: numbers in decimal, without sign or leading
  zeros, joined by dots. \<open>dotted [1, 10, 0]\<close> is the string 1.10.0.
\<close>

definition digit_char :: "nat \<Rightarrow> char" where
  "digit_char d = char_of (48 + d)"

fun decimal :: "nat \<Rightarrow> string" where
  "decimal n = (if n < 10 then [digit_char n] else decimal (n div 10) @ [digit_char (n mod 10)])"

fun dotted :: "nat list \<Rightarrow> string" where
  "dotted [] = []"
| "dotted [n] = decimal n"
| "dotted (n # m # ns) = decimal n @ CHR ''.'' # dotted (m # ns)"

definition digits :: "string \<Rightarrow> bool" where
  "digits s = (\<forall>c\<in>set s. \<exists>d<10. c = digit_char d)"

declare decimal.simps [simp del]


section \<open>Sorting and the last element\<close>

lemma last_filter_keep: "ys \<noteq> [] \<Longrightarrow> P (last ys) \<Longrightarrow> last (filter P ys) = last ys"
  by (induction ys rule: rev_induct) simp_all

lemma sorted_le_last: "sorted ys \<Longrightarrow> y \<in> set ys \<Longrightarrow> y \<le> last ys"
  by (induction ys rule: rev_induct) (auto simp add: sorted_append)

lemma last_sort_key_mem: "xs \<noteq> [] \<Longrightarrow> last (sort_key f xs) \<in> set xs"
  by (metis last_in_set set_sort set_empty)

lemma last_sort_key_max:
  assumes "x \<in> set xs"
  shows "f x \<le> f (last (sort_key f xs))"
proof -
  have ne: "sort_key f xs \<noteq> []"
    using assms by (metis empty_iff set_empty set_sort)
  have "f x \<in> set (map f (sort_key f xs))"
    using assms by simp
  then have "f x \<le> last (map f (sort_key f xs))"
    using sorted_le_last [OF sorted_sort_key] by blast
  then show ?thesis
    using ne by (simp add: last_map)
qed

lemma last_sort_key_stable:
  assumes "xs \<noteq> []"
  shows "last (sort_key f xs) = last (filter (\<lambda>y. f y = f (last (sort_key f xs))) xs)"
proof -
  let ?ys = "sort_key f xs"
  have ne: "?ys \<noteq> []"
    using assms by (metis set_empty set_sort)
  have "last (filter (\<lambda>y. f y = f (last ?ys)) ?ys) = last ?ys"
    using ne by (rule last_filter_keep) simp
  then show ?thesis
    by (simp add: sort_key_stable)
qed

section \<open>Evaluating the examples\<close>

lemma split_examples:
  "split ''abc'' CHR ''.'' = [''abc'']"
  "split ''0.0'' CHR ''.'' = [''0'', ''0'']"
  "split ''1.0.0'' CHR ''.'' = [''1'', ''0'', ''0'']"
  "split ''0.1.0'' CHR ''.'' = [''0'', ''1'', ''0'']"
  "split [CHR 0xD9, CHR 0xA9] CHR ''.'' = [[CHR 0xD9, CHR 0xA9]]"
  by (simp_all add: split_def)

lemmas int_defs =
  py_int_def to_ascii_def unicode_decimal_def unicode_zeros_def unicode_spaces_def
  continuation_def low6_def long_from_string_def is_space_def digit_of_def
  int_max_str_digits_def char_of_eq_iff Let_def

lemma py_int_examples:
  "py_int ''abc'' = None"
  "py_int ''0'' = Some 0"
  "py_int ''1'' = Some 1"
  "py_int [CHR 0xD9, CHR 0xA9] = Some 9"
  by (simp_all add: int_defs)

lemma version_key_examples:
  "version_key ''1.0.0'' = [1, 0, 0]"
  "version_key ''1.2.0'' = [1, 2, 0]"
  "version_key ''1.1.5'' = [1, 1, 5]"
  "version_key ''1.9.0'' = [1, 9, 0]"
  "version_key ''2.0.0'' = [2, 0, 0]"
  "version_key ''0.0.0'' = [0, 0, 0]"
  "version_key ''0.0'' = [0, 0]"
  "version_key ''abc'' = [0, 0, 0]"
  "version_key ''xyz'' = [0, 0, 0]"
  "version_key ''0.1.0'' = [0, 1, 0]"
  "version_key ''0.0.1'' = [0, 0, 1]"
  "version_key ''1.10.0'' = [1, 10, 0]"
  "version_key [CHR 0xD9, CHR 0xA9] = [9]"
  "version_key [CHR 0xD9, CHR 0xA0] = [0]"
  by (simp_all add: version_key_def split_def int_defs)

lemmas run_defs =
  main_def stop_def version_exists_def update_latest_def remove_version_def
  run_env_def manifest_def removed_line_def not_found_line_def usage_line_def dumped_def

lemma dumped_success:
  "dumped \<lparr>trace = [OpenFile Read, Print Stdout a, Print Stdout b, OpenFile Write, Dump D,
      Print Stdout c], file_after = f, status = s\<rparr> = [D]"
  by (simp add: dumped_def)

section \<open>Version keys\<close>

lemma those_None_iff: "those xs = None \<longleftrightarrow> None \<in> set xs"
  by (induction xs) (auto split: option.splits)

lemma those_map_Some: "those (map Some t) = Some t"
  by (induction t) simp_all

lemma version_key_fallback:
  "None \<in> set (map py_int (split v CHR ''.'')) \<Longrightarrow> version_key v = [0, 0, 0]"
  using those_None_iff [of "map py_int (split v CHR ''.'')"] by (simp add: version_key_def)

lemma version_key_numeric:
  assumes "\<forall>c\<in>set (split w CHR ''.''). \<exists>n. py_int c = Some n"
  shows "version_key w = map (\<lambda>c. the (py_int c)) (split w CHR ''.'')"
proof -
  have "map py_int (split w CHR ''.'') = map Some (map (\<lambda>c. the (py_int c)) (split w CHR ''.''))"
    using assms by (auto simp add: map_eq_conv)
  then show ?thesis
    by (simp add: version_key_def those_map_Some del: map_map)
qed

lemma zeros_le:
  fixes t :: "int list"
  assumes "\<forall>x\<in>set t. 0 \<le> x"
    and "3 \<le> length t \<or> (\<exists>x\<in>set t. x \<noteq> 0)"
  shows "[0, 0, 0] \<le> t"
proof (cases t)
  case Nil
  then show ?thesis using assms by simp
next
  case t1: (Cons a t')
  show ?thesis
  proof (cases t')
    case Nil
    then show ?thesis using assms t1 by auto
  next
    case t2: (Cons b t'')
    show ?thesis
    proof (cases t'')
      case Nil
      then show ?thesis using assms t1 t2 by auto
    next
      case (Cons c t''')
      then show ?thesis using assms t1 t2 by auto
    qed
  qed
qed

subsection \<open>The key of a dotted decimal\<close>

lemma of_char_digit_char: "d < 10 \<Longrightarrow> of_char (digit_char d) = (48 + d :: nat)"
  by (simp add: digit_char_def)

lemma digit_of_digit_char: "d < 10 \<Longrightarrow> digit_of (digit_char d) = Some d"
  by (simp add: digit_of_def of_char_digit_char)

lemma digit_char_neq:
  assumes "d < 10" and "of_char c < (48::nat) \<or> (57::nat) < of_char c"
  shows "digit_char d \<noteq> c"
proof
  assume "digit_char d = c"
  then have "of_char c = (48 + d :: nat)"
    using of_char_digit_char [OF assms(1)] by simp
  then show False
    using assms by auto
qed

lemma digit_char_plain:
  assumes "d < 10"
  shows "digit_char d \<noteq> CHR ''_''" and "digit_char d \<noteq> CHR ''.''" and "digit_char d \<noteq> CHR ''+''"
    and "digit_char d \<noteq> CHR ''-''" and "\<not> is_space (digit_char d)"
    and "of_char (digit_char d) < (128::nat)"
  using assms
  by (simp_all add: digit_char_neq is_space_def of_char_digit_char)

lemma digits_avoid:
  assumes "digits s" and "of_char c < (48::nat) \<or> (57::nat) < of_char c"
  shows "c \<notin> set s"
proof
  assume "c \<in> set s"
  then obtain d where "d < 10" "c = digit_char d"
    using assms(1) unfolding digits_def by blast
  then show False
    using digit_char_neq [OF _ assms(2), of d] by simp
qed

lemma digits_decimal: "digits (decimal n)"
proof (induction n rule: decimal.induct)
  case (1 n)
  have last: "\<exists>d<10. digit_char (n mod 10) = digit_char d"
    by (rule exI [of _ "n mod 10"]) simp
  show ?case
  proof (cases "n < 10")
    case True
    then show ?thesis
      by (subst decimal.simps) (auto simp add: digits_def)
  next
    case False
    then show ?thesis
      using 1 last by (subst decimal.simps) (auto simp add: digits_def)
  qed
qed

lemma decimal_not_empty: "decimal n \<noteq> []"
  by (subst decimal.simps) simp

lemma scan_digits_append:
  "digits cs \<Longrightarrow>
     scan_digits acc (cs @ ds) =
       (case scan_digits acc cs of None \<Rightarrow> None | Some a \<Rightarrow> scan_digits a ds)"
proof (induction cs arbitrary: acc)
  case Nil
  then show ?case by simp
next
  case (Cons c cs)
  then obtain d where d: "d < 10" "c = digit_char d"
    by (auto simp add: digits_def)
  have "digits cs"
    using Cons.prems by (simp add: digits_def)
  then show ?case
    using Cons.IH d by (simp add: digit_char_plain digit_of_digit_char)
qed

lemma scan_digits_decimal: "scan_digits 0 (decimal n) = Some n"
proof (induction n rule: decimal.induct)
  case (1 n)
  show ?case
  proof (cases "n < 10")
    case True
    then show ?thesis
      by (subst decimal.simps) (simp add: digit_char_plain digit_of_digit_char)
  next
    case False
    then have "scan_digits 0 (decimal (n div 10)) = Some (n div 10)"
      using 1 by simp
    then show ?thesis
      using False
      by (subst decimal.simps)
        (simp add: scan_digits_append digits_decimal digit_char_plain digit_of_digit_char)
  qed
qed

lemma long_from_string_digits:
  assumes "digits s" and "s \<noteq> []" and "length s \<le> int_max_str_digits"
  shows "long_from_string s = map_option int (scan_digits 0 s)"
proof -
  obtain c cs where s: "s = c # cs"
    using assms(2) by (cases s) auto
  obtain d where d: "d < 10" "c = digit_char d"
    using assms(1) s by (auto simp add: digits_def)
  have "last s \<in> set s"
    using assms(2) by (rule last_in_set)
  then obtain e where e: "e < 10" "last s = digit_char e"
    using assms(1) unfolding digits_def by blast
  have lead: "dropWhile is_space s = s"
    using s d by (simp add: digit_char_plain)
  have "dropWhile is_space (rev s) = rev s"
    using assms(2) e by (cases s rule: rev_cases) (simp_all add: digit_char_plain)
  then have trail: "rev (dropWhile is_space (rev s)) = s"
    by simp
  have "CHR ''_'' \<notin> set s"
    using assms(1) by (rule digits_avoid) simp
  then have plain: "filter (\<lambda>x. x \<noteq> CHR ''_'') s = s"
    by (auto simp add: filter_id_conv)
  have sign: "(if s \<noteq> [] \<and> (hd s = CHR ''+'' \<or> hd s = CHR ''-'') then tl s else s) = s"
    using s d by (simp add: digit_char_plain)
  have pos: "(s \<noteq> [] \<and> hd s = CHR ''-'') = False"
    using s d by (simp add: digit_char_plain)
  have short: "(int_max_str_digits < length s) = False"
    using assms(3) by simp
  have "long_from_string s =
      (case s of [] \<Rightarrow> None
       | c # cs \<Rightarrow>
           (case digit_of c of None \<Rightarrow> None
            | Some d \<Rightarrow>
                (case scan_digits d cs of None \<Rightarrow> None
                 | Some n \<Rightarrow> if False then None else Some (if False then - int n else int n))))"
    unfolding long_from_string_def Let_def lead sign trail plain pos short ..
  then show ?thesis
    using s d by (simp add: digit_char_plain digit_of_digit_char split: option.splits)
qed

lemma utf8_decode_ascii:
  "\<forall>c\<in>set s. of_char c < (128::nat) \<Longrightarrow> utf8_decode s = Some (map of_char s)"
  by (induction s) simp_all

lemma to_ascii_ascii:
  "\<forall>c\<in>set s. of_char c < (128::nat) \<Longrightarrow> those (map to_ascii (map of_char s)) = Some s"
  by (induction s) (simp_all add: to_ascii_def)

lemma py_int_ascii:
  "\<forall>c\<in>set s. of_char c < (128::nat) \<Longrightarrow> py_int s = long_from_string s"
  by (simp add: py_int_def utf8_decode_ascii to_ascii_ascii del: map_map)

lemma py_int_decimal:
  assumes "length (decimal n) \<le> int_max_str_digits"
  shows "py_int (decimal n) = Some (int n)"
proof -
  have "\<forall>c\<in>set (decimal n). of_char c < (128::nat)"
    using digits_decimal [of n] by (auto simp add: digits_def digit_char_plain)
  then have "py_int (decimal n) = long_from_string (decimal n)"
    by (rule py_int_ascii)
  then show ?thesis
    using long_from_string_digits [OF digits_decimal decimal_not_empty assms]
    by (simp add: scan_digits_decimal)
qed

lemma split_acc_plain:
  "sep \<notin> set s \<Longrightarrow> split_acc sep cur (s @ rest) = split_acc sep (rev s @ cur) rest"
  by (induction s arbitrary: cur) auto

lemma no_dot_decimal: "CHR ''.'' \<notin> set (decimal n)"
  using digits_decimal by (rule digits_avoid) simp

lemma split_dotted: "ns \<noteq> [] \<Longrightarrow> split (dotted ns) CHR ''.'' = map decimal ns"
  unfolding split_def
proof (induction ns rule: dotted.induct)
  case 1
  then show ?case by simp
next
  case (2 n)
  show ?case
    using split_acc_plain [OF no_dot_decimal, of "[]" n "[]"] by simp
next
  case (3 n m ns)
  then show ?case
    using split_acc_plain [OF no_dot_decimal, of "[]" n "CHR ''.'' # dotted (m # ns)"] by simp
qed

lemma version_key_dotted:
  assumes "ns \<noteq> []" and "\<forall>n\<in>set ns. length (decimal n) \<le> int_max_str_digits"
  shows "version_key (dotted ns) = map int ns"
proof -
  have "map py_int (map decimal ns) = map Some (map int ns)"
    using assms(2) by (simp add: py_int_decimal)
  then show ?thesis
    using assms(1) by (simp add: version_key_def split_dotted those_map_Some del: map_map)
qed


subsection \<open>The fallback key\<close>

text \<open>
  C7, as stated, fails. The version \<open>abc\<close> does not convert and the version \<open>0.0\<close>
  does, yet the key \<open>(0, 0, 0)\<close> of the first is above the key \<open>(0, 0)\<close> of the
  second, a proper prefix of it.
\<close>

theorem fallback_key_not_lowest:
  "None \<in> set (map py_int (split ''abc'' CHR ''.''))
   \<and> None \<notin> set (map py_int (split ''0.0'' CHR ''.''))
   \<and> version_key ''abc'' = [0, 0, 0]
   \<and> version_key ''0.0'' = [0, 0]
   \<and> version_key ''0.0'' < version_key ''abc''"
  by (simp add: split_examples py_int_examples version_key_examples)

text \<open>
  C7, amended. A version with a component that does not convert has the key
  \<open>(0, 0, 0)\<close>, and this key is not above the key of any version whose components all
  convert to integers that are not negative, as long as that version has three
  components or more, or a component that is not zero.
\<close>

theorem fallback_key_low:
  assumes "None \<in> set (map py_int (split v CHR ''.''))"
    and "\<forall>c\<in>set (split w CHR ''.''). \<exists>n\<ge>0. py_int c = Some n"
    and "3 \<le> length (split w CHR ''.'') \<or> (\<exists>c\<in>set (split w CHR ''.''). py_int c \<noteq> Some 0)"
  shows "version_key v = [0, 0, 0] \<and> \<not> version_key w < version_key v"
proof -
  let ?t = "map (\<lambda>c. the (py_int c)) (split w CHR ''.'')"
  have kv: "version_key v = [0, 0, 0]"
    using assms(1) by (rule version_key_fallback)
  have kw: "version_key w = ?t"
    using assms(2) by (intro version_key_numeric) blast
  have nonneg: "\<forall>x\<in>set ?t. 0 \<le> x"
    using assms(2) by fastforce
  have big: "3 \<le> length ?t \<or> (\<exists>x\<in>set ?t. x \<noteq> 0)"
    using assms(2,3) by fastforce
  have "[0, 0, 0] \<le> ?t"
    using nonneg big by (rule zeros_le)
  then show ?thesis
    using kv kw by (simp add: not_less)
qed

theorem fallback_key_low_witness:
  "None \<in> set (map py_int (split ''abc'' CHR ''.''))
   \<and> map py_int (split ''1.0.0'' CHR ''.'') = [Some 1, Some 0, Some 0]
   \<and> 3 \<le> length (split ''1.0.0'' CHR ''.'')
   \<and> version_key ''abc'' = [0, 0, 0]
   \<and> version_key ''abc'' \<le> version_key ''1.0.0''
   \<and> map py_int (split [CHR 0xD9, CHR 0xA9] CHR ''.'') = [Some 9]
   \<and> version_key ''0.0.1'' < version_key [CHR 0xD9, CHR 0xA9]"
  using fallback_key_low [of "''abc''" "''1.0.0''"]
  by (auto simp add: split_examples py_int_examples version_key_examples)

section \<open>Leaving early\<close>

text \<open>
  C8. With any number of command-line arguments other than one (\<open>sys.argv\<close> of a length
  other than 2), the run prints the usage line on the error stream and exits with
  status 1; the file is never opened and stays as it was.
\<close>

theorem wrong_arity_usage:
  "length (argv E) \<noteq> 2 \<Longrightarrow>
     main E = \<lparr>trace = [Print Stderr usage_line], file_after = file_content E, status = SysExit 1\<rparr>
     \<and> exit_status (status (main E)) = 1
     \<and> (\<forall>m. OpenFile m \<notin> set (trace (main E)))"
  by (simp add: main_def stop_def)

theorem wrong_arity_usage_witness:
  "length (argv (run_env (manifest JNull []) [])) \<noteq> 2
   \<and> main (run_env (manifest JNull []) []) =
       \<lparr>trace = [Print Stderr ''Usage: unrelease-cli.py <version>''], file_after = Some ''old'',
        status = SysExit 1\<rparr>
   \<and> length (argv (run_env (manifest JNull []) [''1.0.0'', ''2.0.0''])) \<noteq> 2
   \<and> trace (main (run_env (manifest JNull []) [''1.0.0'', ''2.0.0''])) =
       [Print Stderr ''Usage: unrelease-cli.py <version>'']"
  using wrong_arity_usage [of "run_env (manifest JNull []) []"]
    wrong_arity_usage [of "run_env (manifest JNull []) [''1.0.0'', ''2.0.0'']"]
  by (simp add: run_env_def usage_line_def)

text \<open>
  C3. When the manifest is a JSON object whose \<open>releases\<close> is missing, or is a mapping
  without the target version among its keys, the run prints the error line on the error
  stream and exits with status 1. The file is not opened for writing, nothing is dumped,
  and its content is what it was.
\<close>

theorem not_found_exit:
  assumes "length (argv E) = 2"
    and "file_content E = Some c"
    and "json_load E c = Some (JDict d)"
    and "map_of d ''releases'' = None \<or>
         (\<exists>rel. map_of d ''releases'' = Some (JDict rel) \<and> argv E ! 1 \<notin> set (map fst rel))"
  shows "main E =
           \<lparr>trace = [OpenFile Read, Print Stderr (not_found_line (argv E ! 1))],
            file_after = file_content E, status = SysExit 1\<rparr>
         \<and> exit_status (status (main E)) = 1
         \<and> OpenFile Write \<notin> set (trace (main E))
         \<and> dumped (main E) = []"
  using assms by (auto simp add: main_def stop_def version_exists_def dumped_def)

theorem not_found_exit_witness:
  "length (argv (run_env (manifest (JStr ''2.0.0'') [(''2.0.0'', JDict []), (''1.9.0'', JDict [])])
      [''3.0.0''])) = 2
   \<and> main (run_env (manifest (JStr ''2.0.0'') [(''2.0.0'', JDict []), (''1.9.0'', JDict [])])
        [''3.0.0'']) =
       \<lparr>trace = [OpenFile Read, Print Stderr ''Error: Version 3.0.0 not found in cli-releases.json''],
        file_after = Some ''old'', status = SysExit 1\<rparr>"
  using not_found_exit
    [of "run_env (manifest (JStr ''2.0.0'') [(''2.0.0'', JDict []), (''1.9.0'', JDict [])]) [''3.0.0'']"
      "''old''"
      "[(''latest'', JStr ''2.0.0''), (''releases'', JDict [(''2.0.0'', JDict []), (''1.9.0'', JDict [])]),
        (''updated_at'', JStr ''2023-01-01T00:00:00Z'')]"]
  by (simp add: run_env_def manifest_def not_found_line_def)

section \<open>The run on a manifest that has the version\<close>

lemma latest_is:
  "((case map_of d ''latest'' of None \<Rightarrow> JNull | Some x \<Rightarrow> x) = JStr v)
     = (map_of d ''latest'' = Some (JStr v))"
  by (simp split: option.splits)

lemma update_latest_other:
  "map_of d ''latest'' \<noteq> Some (JStr v) \<Longrightarrow> update_latest (JDict d) v = ([], Inr (JDict d))"
  by (simp add: update_latest_def latest_is)

lemma update_latest_recompute:
  assumes "map_of d ''latest'' = Some (JStr v)"
    and "map_of d ''releases'' = Some (JDict rel)"
    and "v \<in> set (map fst rel)"
    and "filter (\<lambda>k. k \<noteq> v) (map fst rel) \<noteq> []"
  shows "update_latest (JDict d) v =
           ([Print Stdout (''  Updated latest to '' @
               last (sort_key version_key (filter (\<lambda>k. k \<noteq> v) (map fst rel))))],
            Inr (JDict (AList.update ''latest''
               (JStr (last (sort_key version_key (filter (\<lambda>k. k \<noteq> v) (map fst rel))))) d)))"
proof -
  have "rel \<noteq> []" using assms(3) by auto
  then show ?thesis
    using assms by (simp add: update_latest_def Let_def)
qed

lemma update_latest_sole:
  assumes "map_of d ''latest'' = Some (JStr v)"
    and "map_of d ''releases'' = Some (JDict rel)"
    and "v \<in> set (map fst rel)"
    and "filter (\<lambda>k. k \<noteq> v) (map fst rel) = []"
  shows "update_latest (JDict d) v =
           ([Print Stdout ''  Warning: No other versions found''], Inr (JDict d))"
proof -
  have "rel \<noteq> []" using assms(3) by auto
  then show ?thesis
    using assms by (simp add: update_latest_def Let_def)
qed

lemma remove_version_found:
  "map_of d1 ''releases'' = Some (JDict rel) \<Longrightarrow> v \<in> set (map fst rel) \<Longrightarrow>
     remove_version (JDict d1) v =
       Inr (JDict (AList.update ''releases'' (JDict (AList.delete v rel)) d1))"
  by (simp add: remove_version_def)

lemma main_found:
  assumes "length (argv E) = 2"
    and "file_content E = Some c"
    and "json_load E c = Some (JDict d)"
    and "map_of d ''releases'' = Some (JDict rel)"
    and "argv E ! 1 \<in> set (map fst rel)"
    and "update_latest (JDict d) (argv E ! 1) = (out, Inr (JDict d1))"
    and "map_of d1 ''releases'' = Some (JDict rel)"
  shows "main E =
           \<lparr>trace = OpenFile Read # out @
              [Print Stdout (removed_line (argv E ! 1)), OpenFile Write,
               Dump (JDict (AList.update ''updated_at'' (JStr (utcnow E))
                  (AList.update ''releases'' (JDict (AList.delete (argv E ! 1) rel)) d1))),
               Print Stdout updated_line],
            file_after = Some (json_dump E (JDict (AList.update ''updated_at'' (JStr (utcnow E))
                  (AList.update ''releases'' (JDict (AList.delete (argv E ! 1) rel)) d1))) @ [CHR 0x0A]),
            status = Success\<rparr>"
  using assms by (simp add: main_def version_exists_def remove_version_found Let_def)

lemma main_recompute:
  assumes "length (argv E) = 2"
    and "file_content E = Some c"
    and "json_load E c = Some (JDict d)"
    and "map_of d ''releases'' = Some (JDict rel)"
    and "v = argv E ! 1"
    and "v \<in> set (map fst rel)"
    and "map_of d ''latest'' = Some (JStr v)"
    and "remaining = filter (\<lambda>k. k \<noteq> v) (map fst rel)"
    and "remaining \<noteq> []"
    and "m = last (sort_key version_key remaining)"
    and "d' = AList.update ''updated_at'' (JStr (utcnow E))
           (AList.update ''releases'' (JDict (AList.delete v rel))
             (AList.update ''latest'' (JStr m) d))"
  shows "main E =
           \<lparr>trace = [OpenFile Read, Print Stdout (''  Updated latest to '' @ m),
                     Print Stdout (removed_line v), OpenFile Write, Dump (JDict d'),
                     Print Stdout updated_line],
            file_after = Some (json_dump E (JDict d') @ [CHR 0x0A]),
            status = Success\<rparr>"
    and "map_of d' ''latest'' = Some (JStr m)"
    and "map_of d' ''releases'' = Some (JDict (AList.delete v rel))"
proof -
  have upd: "update_latest (JDict d) (argv E ! 1) =
      ([Print Stdout (''  Updated latest to '' @ m)], Inr (JDict (AList.update ''latest'' (JStr m) d)))"
    using update_latest_recompute [of d v rel] assms(4-10) by simp
  have rels: "map_of (AList.update ''latest'' (JStr m) d) ''releases'' = Some (JDict rel)"
    using assms(4) by (simp add: update_conv')
  show "main E =
           \<lparr>trace = [OpenFile Read, Print Stdout (''  Updated latest to '' @ m),
                     Print Stdout (removed_line v), OpenFile Write, Dump (JDict d'),
                     Print Stdout updated_line],
            file_after = Some (json_dump E (JDict d') @ [CHR 0x0A]),
            status = Success\<rparr>"
    using main_found [OF assms(1-4) _ upd rels] assms(5,6,11) by simp
  show "map_of d' ''latest'' = Some (JStr m)"
    by (simp add: assms(11) update_conv')
  show "map_of d' ''releases'' = Some (JDict (AList.delete v rel))"
    by (simp add: assms(11) update_conv')
qed

lemma keys_delete: "map fst (AList.delete v rel) = filter (\<lambda>k. k \<noteq> v) (map fst rel)"
  by (induction rel) auto

section \<open>Removing a version\<close>

text \<open>
  C4. When the target version is a key of \<open>releases\<close> and \<open>latest\<close> is not the target,
  the run succeeds and dumps a manifest whose \<open>releases\<close> has lost the target: the
  other keys are there in their order with the metadata they had, and \<open>latest\<close> is what
  it was (absent when it was absent).
\<close>

theorem remove_other_version:
  assumes "length (argv E) = 2"
    and "file_content E = Some c"
    and "json_load E c = Some (JDict d)"
    and "map_of d ''releases'' = Some (JDict rel)"
    and "argv E ! 1 \<in> set (map fst rel)"
    and "map_of d ''latest'' \<noteq> Some (JStr (argv E ! 1))"
  shows "\<exists>d' rel'.
           main E =
             \<lparr>trace = [OpenFile Read, Print Stdout (removed_line (argv E ! 1)), OpenFile Write,
                       Dump (JDict d'), Print Stdout updated_line],
              file_after = Some (json_dump E (JDict d') @ [CHR 0x0A]),
              status = Success\<rparr>
           \<and> map_of d' ''releases'' = Some (JDict rel')
           \<and> argv E ! 1 \<notin> set (map fst rel')
           \<and> map fst rel' = filter (\<lambda>k. k \<noteq> argv E ! 1) (map fst rel)
           \<and> (\<forall>k. k \<noteq> argv E ! 1 \<longrightarrow> map_of rel' k = map_of rel k)
           \<and> map_of d' ''latest'' = map_of d ''latest''"
proof -
  let ?v = "argv E ! 1"
  let ?rel' = "AList.delete ?v rel"
  let ?d' = "AList.update ''updated_at'' (JStr (utcnow E)) (AList.update ''releases'' (JDict ?rel') d)"
  have run: "main E =
      \<lparr>trace = [OpenFile Read, Print Stdout (removed_line ?v), OpenFile Write, Dump (JDict ?d'),
                Print Stdout updated_line],
       file_after = Some (json_dump E (JDict ?d') @ [CHR 0x0A]), status = Success\<rparr>"
    using main_found [OF assms(1-5) update_latest_other [OF assms(6)] assms(4)] by simp
  have rels: "map_of ?d' ''releases'' = Some (JDict ?rel')"
    by (simp add: update_conv')
  have gone: "?v \<notin> set (map fst ?rel')"
    using delete_notin_dom [of ?v rel] by simp
  have keys: "map fst ?rel' = filter (\<lambda>k. k \<noteq> ?v) (map fst rel)"
    by (induction rel) auto
  have others: "\<forall>k. k \<noteq> ?v \<longrightarrow> map_of ?rel' k = map_of rel k"
    by simp
  have latest: "map_of ?d' ''latest'' = map_of d ''latest''"
    by (simp add: update_conv')
  show ?thesis
    using run rels gone keys others latest by blast
qed

theorem remove_other_version_witness:
  "main (run_env (manifest (JStr ''2.0.0'') [(''2.0.0'', JBool True), (''1.9.0'', JBool False)])
      [''1.9.0'']) =
     \<lparr>trace = [OpenFile Read, Print Stdout ''  Removed 1.9.0 from releases'', OpenFile Write,
               Dump (JDict [(''latest'', JStr ''2.0.0''), (''releases'', JDict [(''2.0.0'', JBool True)]),
                            (''updated_at'', JStr ''2024-05-06T07:08:09Z'')]),
               Print Stdout updated_line],
      file_after = Some ''new\<newline>'', status = Success\<rparr>"
  using remove_other_version
    [of "run_env (manifest (JStr ''2.0.0'') [(''2.0.0'', JBool True), (''1.9.0'', JBool False)]) [''1.9.0'']"
      "''old''"
      "[(''latest'', JStr ''2.0.0''), (''releases'', JDict [(''2.0.0'', JBool True), (''1.9.0'', JBool False)]),
        (''updated_at'', JStr ''2023-01-01T00:00:00Z'')]"
      "[(''2.0.0'', JBool True), (''1.9.0'', JBool False)]"]
  by (simp add: run_defs)

text \<open>
  C6. When the target version is \<open>latest\<close> and the only key of \<open>releases\<close>, the run
  succeeds: it prints the warning, leaves \<open>latest\<close> naming the removed version, and dumps
  a manifest whose \<open>releases\<close> is empty.
\<close>

theorem remove_sole_latest:
  assumes "length (argv E) = 2"
    and "file_content E = Some c"
    and "json_load E c = Some (JDict d)"
    and "map_of d ''releases'' = Some (JDict rel)"
    and "set (map fst rel) = {argv E ! 1}"
    and "map_of d ''latest'' = Some (JStr (argv E ! 1))"
  shows "\<exists>d'.
           main E =
             \<lparr>trace = [OpenFile Read, Print Stdout ''  Warning: No other versions found'',
                       Print Stdout (removed_line (argv E ! 1)), OpenFile Write,
                       Dump (JDict d'), Print Stdout updated_line],
              file_after = Some (json_dump E (JDict d') @ [CHR 0x0A]),
              status = Success\<rparr>
           \<and> map_of d' ''latest'' = map_of d ''latest''
           \<and> map_of d' ''latest'' = Some (JStr (argv E ! 1))
           \<and> map_of d' ''releases'' = Some (JDict [])"
proof -
  let ?v = "argv E ! 1"
  let ?d' = "AList.update ''updated_at'' (JStr (utcnow E)) (AList.update ''releases'' (JDict []) d)"
  have mem: "?v \<in> set (map fst rel)"
    using assms(5) by simp
  have all: "fst p = ?v" if "p \<in> set rel" for p
  proof -
    from that have "fst p \<in> set (map fst rel)"
      by simp
    then show ?thesis
      unfolding assms(5) by simp
  qed
  have none: "filter (\<lambda>k. k \<noteq> ?v) (map fst rel) = []"
    by (simp add: filter_empty_conv all)
  have empty: "AList.delete ?v rel = []"
    using all by (auto simp add: AList.delete_eq filter_empty_conv)
  have run: "main E =
      \<lparr>trace = [OpenFile Read, Print Stdout ''  Warning: No other versions found'',
                Print Stdout (removed_line ?v), OpenFile Write, Dump (JDict ?d'),
                Print Stdout updated_line],
       file_after = Some (json_dump E (JDict ?d') @ [CHR 0x0A]), status = Success\<rparr>"
    using main_found [OF assms(1-4) mem update_latest_sole [OF assms(6) assms(4) mem none] assms(4)]
    unfolding empty by simp
  have "map_of ?d' ''latest'' = map_of d ''latest''"
    by (simp add: update_conv')
  moreover have "map_of ?d' ''releases'' = Some (JDict [])"
    by (simp add: update_conv')
  ultimately show ?thesis
    using run assms(6) by auto
qed

theorem remove_sole_latest_witness:
  "main (run_env (manifest (JStr ''1.0.0'') [(''1.0.0'', JDict [])]) [''1.0.0'']) =
     \<lparr>trace = [OpenFile Read, Print Stdout ''  Warning: No other versions found'',
               Print Stdout ''  Removed 1.0.0 from releases'', OpenFile Write,
               Dump (JDict [(''latest'', JStr ''1.0.0''), (''releases'', JDict []),
                            (''updated_at'', JStr ''2024-05-06T07:08:09Z'')]),
               Print Stdout updated_line],
      file_after = Some ''new\<newline>'', status = Success\<rparr>"
  using remove_sole_latest
    [of "run_env (manifest (JStr ''1.0.0'') [(''1.0.0'', JDict [])]) [''1.0.0'']"
      "''old''"
      "[(''latest'', JStr ''1.0.0''), (''releases'', JDict [(''1.0.0'', JDict [])]),
        (''updated_at'', JStr ''2023-01-01T00:00:00Z'')]"
      "[(''1.0.0'', JDict [])]"]
  by (simp add: run_defs)

section \<open>The new latest\<close>

text \<open>
  C1. When the target version is \<open>latest\<close> and other keys remain in \<open>releases\<close>, the run
  succeeds and the dumped \<open>latest\<close> is a remaining version whose \<open>version_key\<close> is
  greatest among the remaining ones; when the remaining versions are 1.0.0, 1.2.0 and
  1.1.5, in whatever order, it is 1.2.0. The key is the numeric tuple: the key of a
  dotted decimal is the list of its numbers (each of at most 4300 digits), the key of a
  version whose pieces all convert is the list of their values, and the key of a
  version with a piece that does not convert is \<open>(0, 0, 0)\<close>.
\<close>

theorem latest_recomputed:
  assumes "length (argv E) = 2"
    and "file_content E = Some c"
    and "json_load E c = Some (JDict d)"
    and "map_of d ''releases'' = Some (JDict rel)"
    and "v = argv E ! 1"
    and "v \<in> set (map fst rel)"
    and "map_of d ''latest'' = Some (JStr v)"
    and "remaining = filter (\<lambda>k. k \<noteq> v) (map fst rel)"
    and "remaining \<noteq> []"
  shows "\<exists>d' m.
           main E =
             \<lparr>trace = [OpenFile Read, Print Stdout (''  Updated latest to '' @ m),
                       Print Stdout (removed_line v), OpenFile Write, Dump (JDict d'),
                       Print Stdout updated_line],
              file_after = Some (json_dump E (JDict d') @ [CHR 0x0A]),
              status = Success\<rparr>
           \<and> map_of d' ''latest'' = Some (JStr m)
           \<and> m \<in> set remaining
           \<and> (\<forall>r\<in>set remaining. version_key r \<le> version_key m)
           \<and> (set remaining = {''1.0.0'', ''1.2.0'', ''1.1.5''} \<longrightarrow> m = ''1.2.0'')
           \<and> (\<forall>ns. ns \<noteq> [] \<and> (\<forall>n\<in>set ns. length (decimal n) \<le> int_max_str_digits) \<longrightarrow>
                  version_key (dotted ns) = map int ns)
           \<and> (\<forall>u t. map py_int (split u CHR ''.'') = map Some t \<longrightarrow> version_key u = t)
           \<and> (\<forall>u. None \<in> set (map py_int (split u CHR ''.'')) \<longrightarrow> version_key u = [0, 0, 0])"
proof -
  define m where "m = last (sort_key version_key remaining)"
  define d' where "d' = AList.update ''updated_at'' (JStr (utcnow E))
           (AList.update ''releases'' (JDict (AList.delete v rel))
             (AList.update ''latest'' (JStr m) d))"
  note run = main_recompute [OF assms m_def d'_def]
  have mem: "m \<in> set remaining"
    unfolding m_def using assms(9) by (rule last_sort_key_mem)
  have max: "\<forall>r\<in>set remaining. version_key r \<le> version_key m"
    unfolding m_def by (simp add: last_sort_key_max)
  have ex: "m = ''1.2.0''" if "set remaining = {''1.0.0'', ''1.2.0'', ''1.1.5''}"
  proof -
    have "version_key ''1.2.0'' \<le> version_key m"
      using max that by simp
    moreover have "m = ''1.0.0'' \<or> m = ''1.2.0'' \<or> m = ''1.1.5''"
      using mem that by simp
    ultimately show ?thesis
      by (auto simp add: version_key_examples)
  qed
  have dec: "\<forall>ns. ns \<noteq> [] \<and> (\<forall>n\<in>set ns. length (decimal n) \<le> int_max_str_digits) \<longrightarrow>
      version_key (dotted ns) = map int ns"
    by (simp add: version_key_dotted)
  have num: "\<forall>u t. map py_int (split u CHR ''.'') = map Some t \<longrightarrow> version_key u = t"
    by (simp add: version_key_def those_map_Some)
  have fall: "\<forall>u. None \<in> set (map py_int (split u CHR ''.'')) \<longrightarrow> version_key u = [0, 0, 0]"
    by (simp add: version_key_fallback)
  have "main E =
             \<lparr>trace = [OpenFile Read, Print Stdout (''  Updated latest to '' @ m),
                       Print Stdout (removed_line v), OpenFile Write, Dump (JDict d'),
                       Print Stdout updated_line],
              file_after = Some (json_dump E (JDict d') @ [CHR 0x0A]),
              status = Success\<rparr>
           \<and> map_of d' ''latest'' = Some (JStr m)
           \<and> m \<in> set remaining
           \<and> (\<forall>r\<in>set remaining. version_key r \<le> version_key m)
           \<and> (set remaining = {''1.0.0'', ''1.2.0'', ''1.1.5''} \<longrightarrow> m = ''1.2.0'')"
    using run(1,2) mem max ex by blast
  then show ?thesis
    using dec num fall by blast
qed

theorem latest_recomputed_witness:
  "main (run_env (manifest (JStr ''2.0.0'')
        [(''1.0.0'', JDict []), (''2.0.0'', JDict []), (''1.2.0'', JDict []), (''1.1.5'', JDict [])])
      [''2.0.0'']) =
     \<lparr>trace = [OpenFile Read, Print Stdout ''  Updated latest to 1.2.0'',
               Print Stdout ''  Removed 2.0.0 from releases'', OpenFile Write,
               Dump (JDict [(''latest'', JStr ''1.2.0''),
                            (''releases'', JDict [(''1.0.0'', JDict []), (''1.2.0'', JDict []), (''1.1.5'', JDict [])]),
                            (''updated_at'', JStr ''2024-05-06T07:08:09Z'')]),
               Print Stdout updated_line],
      file_after = Some ''new\<newline>'', status = Success\<rparr>
   \<and> version_key ''1.10.0'' = [1, 10, 0]
   \<and> version_key [CHR 0xD9, CHR 0xA9] = [9]
   \<and> dumped (main (run_env (manifest (JStr ''2.0.0'')
        [(''2.0.0'', JDict []), (''1.10.0'', JDict []), (''1.9.0'', JDict [])]) [''2.0.0''])) =
     [JDict [(''latest'', JStr ''1.10.0''),
             (''releases'', JDict [(''1.10.0'', JDict []), (''1.9.0'', JDict [])]),
             (''updated_at'', JStr ''2024-05-06T07:08:09Z'')]]
   \<and> dumped (main (run_env (manifest (JStr ''2.0.0'')
        [(''2.0.0'', JDict []), (''1.0.0'', JDict []), ([CHR 0xD9, CHR 0xA9], JDict [])])
        [''2.0.0''])) =
     [JDict [(''latest'', JStr [CHR 0xD9, CHR 0xA9]),
             (''releases'', JDict [(''1.0.0'', JDict []), ([CHR 0xD9, CHR 0xA9], JDict [])]),
             (''updated_at'', JStr ''2024-05-06T07:08:09Z'')]]"
  using latest_recomputed
    [of "run_env (manifest (JStr ''2.0.0'')
        [(''1.0.0'', JDict []), (''2.0.0'', JDict []), (''1.2.0'', JDict []), (''1.1.5'', JDict [])])
      [''2.0.0'']"
      "''old''"
      "[(''latest'', JStr ''2.0.0''),
        (''releases'', JDict [(''1.0.0'', JDict []), (''2.0.0'', JDict []), (''1.2.0'', JDict []), (''1.1.5'', JDict [])]),
        (''updated_at'', JStr ''2023-01-01T00:00:00Z'')]"
      "[(''1.0.0'', JDict []), (''2.0.0'', JDict []), (''1.2.0'', JDict []), (''1.1.5'', JDict [])]"
      "''2.0.0''" "[''1.0.0'', ''1.2.0'', ''1.1.5'']"]
  by (simp add: run_defs version_key_examples Let_def)

text \<open>
  C10. When \<open>latest\<close> is recomputed, the sort keeps versions of equal key in the order
  of the keys of \<open>releases\<close>, so the new \<open>latest\<close>, whose key is greatest, is the last
  in that order of the remaining versions that share its key.
\<close>

theorem tie_goes_to_last_key:
  assumes "length (argv E) = 2"
    and "file_content E = Some c"
    and "json_load E c = Some (JDict d)"
    and "map_of d ''releases'' = Some (JDict rel)"
    and "v = argv E ! 1"
    and "v \<in> set (map fst rel)"
    and "map_of d ''latest'' = Some (JStr v)"
    and "remaining = filter (\<lambda>k. k \<noteq> v) (map fst rel)"
    and "remaining \<noteq> []"
  shows "\<exists>d' m.
           status (main E) = Success
           \<and> dumped (main E) = [JDict d']
           \<and> map_of d' ''latest'' = Some (JStr m)
           \<and> m = last (sort_key version_key remaining)
           \<and> (\<forall>k. filter (\<lambda>r. version_key r = k) (sort_key version_key remaining) =
                    filter (\<lambda>r. version_key r = k) remaining)
           \<and> (\<forall>r\<in>set remaining. version_key r \<le> version_key m)
           \<and> m = last (filter (\<lambda>r. version_key r = version_key m) remaining)"
proof -
  define m where "m = last (sort_key version_key remaining)"
  define d' where "d' = AList.update ''updated_at'' (JStr (utcnow E))
           (AList.update ''releases'' (JDict (AList.delete v rel))
             (AList.update ''latest'' (JStr m) d))"
  note run = main_recompute [OF assms m_def d'_def]
  have ok: "status (main E) = Success" and dump: "dumped (main E) = [JDict d']"
    by (simp_all add: run(1) dumped_success)
  have stable: "\<forall>k. filter (\<lambda>r. version_key r = k) (sort_key version_key remaining) =
      filter (\<lambda>r. version_key r = k) remaining"
    by (simp add: sort_key_stable)
  have max: "\<forall>r\<in>set remaining. version_key r \<le> version_key m"
    unfolding m_def by (simp add: last_sort_key_max)
  have tie: "m = last (filter (\<lambda>r. version_key r = version_key m) remaining)"
    unfolding m_def using assms(9) by (rule last_sort_key_stable)
  show ?thesis
    using ok dump run(2) m_def stable max tie by blast
qed

theorem tie_goes_to_last_key_witness:
  "dumped (main (run_env (manifest (JStr ''2.0.0'')
        [(''abc'', JNull), (''2.0.0'', JNull), (''0.0.0'', JNull), (''xyz'', JNull), (''0.0'', JNull)])
      [''2.0.0''])) =
     [JDict [(''latest'', JStr ''xyz''),
             (''releases'', JDict [(''abc'', JNull), (''0.0.0'', JNull), (''xyz'', JNull), (''0.0'', JNull)]),
             (''updated_at'', JStr ''2024-05-06T07:08:09Z'')]]
   \<and> ''xyz'' = last (filter (\<lambda>r. version_key r = version_key ''xyz'')
        [''abc'', ''0.0.0'', ''xyz'', ''0.0''])
   \<and> dumped (main (run_env (manifest (JStr ''2.0.0'')
        [(''2.0.0'', JNull), (''abc'', JNull), ([CHR 0xD9, CHR 0xA0], JNull)]) [''2.0.0''])) =
     [JDict [(''latest'', JStr ''abc''),
             (''releases'', JDict [(''abc'', JNull), ([CHR 0xD9, CHR 0xA0], JNull)]),
             (''updated_at'', JStr ''2024-05-06T07:08:09Z'')]]"
  using tie_goes_to_last_key
    [of "run_env (manifest (JStr ''2.0.0'')
        [(''abc'', JNull), (''2.0.0'', JNull), (''0.0.0'', JNull), (''xyz'', JNull), (''0.0'', JNull)])
      [''2.0.0'']"
      "''old''"
      "[(''latest'', JStr ''2.0.0''),
        (''releases'', JDict [(''abc'', JNull), (''2.0.0'', JNull), (''0.0.0'', JNull), (''xyz'', JNull), (''0.0'', JNull)]),
        (''updated_at'', JStr ''2023-01-01T00:00:00Z'')]"
      "[(''abc'', JNull), (''2.0.0'', JNull), (''0.0.0'', JNull), (''xyz'', JNull), (''0.0'', JNull)]"
      "''2.0.0''" "[''abc'', ''0.0.0'', ''xyz'', ''0.0'']"]
  by (simp add: run_defs version_key_examples Let_def)

text \<open>
  C5, as stated, fails. With \<open>2.0.0\<close> removed from the keys 2.0.0, 0.0.0, abc, the
  version \<open>abc\<close>, which does not convert, ties with 0.0.0 on the key \<open>(0, 0, 0)\<close>,
  comes later among the keys and becomes \<open>latest\<close>, although it is not the only
  remaining key.
\<close>

theorem fallback_chosen_among_others:
  "None \<in> set (map py_int (split ''abc'' CHR ''.''))
   \<and> status (main (run_env (manifest (JStr ''2.0.0'')
        [(''2.0.0'', JNull), (''0.0.0'', JNull), (''abc'', JNull)]) [''2.0.0''])) = Success
   \<and> dumped (main (run_env (manifest (JStr ''2.0.0'')
        [(''2.0.0'', JNull), (''0.0.0'', JNull), (''abc'', JNull)]) [''2.0.0''])) =
     [JDict [(''latest'', JStr ''abc''),
             (''releases'', JDict [(''0.0.0'', JNull), (''abc'', JNull)]),
             (''updated_at'', JStr ''2024-05-06T07:08:09Z'')]]"
  by (simp add: run_defs version_key_examples split_examples py_int_examples Let_def)

text \<open>
  C5, amended. When \<open>latest\<close> is recomputed, a remaining version with a component that
  does not convert has the key \<open>(0, 0, 0)\<close>, and it does not become \<open>latest\<close> when some
  remaining version has a key greater than \<open>(0, 0, 0)\<close>.
\<close>

theorem fallback_loses_to_greater_key:
  assumes "length (argv E) = 2"
    and "file_content E = Some c"
    and "json_load E c = Some (JDict d)"
    and "map_of d ''releases'' = Some (JDict rel)"
    and "v = argv E ! 1"
    and "v \<in> set (map fst rel)"
    and "map_of d ''latest'' = Some (JStr v)"
    and "remaining = filter (\<lambda>k. k \<noteq> v) (map fst rel)"
    and "bad \<in> set remaining"
    and "None \<in> set (map py_int (split bad CHR ''.''))"
    and "\<exists>r\<in>set remaining. [0, 0, 0] < version_key r"
  shows "version_key bad = [0, 0, 0]
         \<and> (\<exists>d' m.
               status (main E) = Success
               \<and> dumped (main E) = [JDict d']
               \<and> map_of d' ''latest'' = Some (JStr m)
               \<and> m \<noteq> bad)"
proof -
  define m where "m = last (sort_key version_key remaining)"
  define d' where "d' = AList.update ''updated_at'' (JStr (utcnow E))
           (AList.update ''releases'' (JDict (AList.delete v rel))
             (AList.update ''latest'' (JStr m) d))"
  have ne: "remaining \<noteq> []"
    using assms(9) by auto
  note run = main_recompute [OF assms(1-8) ne m_def d'_def]
  have ok: "status (main E) = Success" and dump: "dumped (main E) = [JDict d']"
    by (simp_all add: run(1) dumped_success)
  have kb: "version_key bad = [0, 0, 0]"
    using assms(10) by (rule version_key_fallback)
  obtain r where r: "r \<in> set remaining" "[0, 0, 0] < version_key r"
    using assms(11) by blast
  have "version_key r \<le> version_key m"
    unfolding m_def using r(1) by (rule last_sort_key_max)
  then have "version_key bad < version_key m"
    using r(2) kb by simp
  then have "m \<noteq> bad"
    by auto
  then show ?thesis
    using kb ok dump run(2) by blast
qed

theorem fallback_loses_to_greater_key_witness:
  "None \<in> set (map py_int (split ''abc'' CHR ''.''))
   \<and> [0, 0, 0] < version_key ''0.1.0''
   \<and> version_key ''abc'' = [0, 0, 0]
   \<and> map py_int (split [CHR 0xD9, CHR 0xA9] CHR ''.'') = [Some 9]
   \<and> dumped (main (run_env (manifest (JStr ''2.0.0'')
        [([CHR 0xD9, CHR 0xA9], JNull), (''2.0.0'', JNull), (''abc'', JNull)]) [''2.0.0''])) =
     [JDict [(''latest'', JStr [CHR 0xD9, CHR 0xA9]),
             (''releases'', JDict [([CHR 0xD9, CHR 0xA9], JNull), (''abc'', JNull)]),
             (''updated_at'', JStr ''2024-05-06T07:08:09Z'')]]
   \<and> dumped (main (run_env (manifest (JStr ''2.0.0'')
        [(''0.1.0'', JNull), (''2.0.0'', JNull), (''abc'', JNull)]) [''2.0.0''])) =
     [JDict [(''latest'', JStr ''0.1.0''),
             (''releases'', JDict [(''0.1.0'', JNull), (''abc'', JNull)]),
             (''updated_at'', JStr ''2024-05-06T07:08:09Z'')]]"
  using fallback_loses_to_greater_key
    [of "run_env (manifest (JStr ''2.0.0'')
        [(''0.1.0'', JNull), (''2.0.0'', JNull), (''abc'', JNull)]) [''2.0.0'']"
      "''old''"
      "[(''latest'', JStr ''2.0.0''),
        (''releases'', JDict [(''0.1.0'', JNull), (''2.0.0'', JNull), (''abc'', JNull)]),
        (''updated_at'', JStr ''2023-01-01T00:00:00Z'')]"
      "[(''0.1.0'', JNull), (''2.0.0'', JNull), (''abc'', JNull)]"
      "''2.0.0''" "[''0.1.0'', ''abc'']" "''abc''"]
  by (simp add: run_defs version_key_examples split_examples py_int_examples Let_def)

section \<open>The invariant after a run\<close>

lemma latest_ok_iff:
  "map_of d ''releases'' = Some (JDict rel) \<Longrightarrow>
     latest_ok d \<longleftrightarrow>
       (map_of d ''latest'' = None \<or> map_of d ''latest'' = Some JNull
        \<or> (\<exists>s. map_of d ''latest'' = Some (JStr s) \<and> s \<in> set (map fst rel)))"
  by (auto simp add: latest_ok_def split: option.splits json.splits)

lemma main_success_found:
  assumes "status (main E) = Success"
    and "file_content E = Some c"
    and "json_load E c = Some (JDict d)"
    and "map_of d ''releases'' = Some (JDict rel)"
  shows "length (argv E) = 2" and "argv E ! 1 \<in> set (map fst rel)"
proof -
  show len: "length (argv E) = 2"
    using assms(1) by (auto simp add: main_def stop_def split: if_splits)
  show "argv E ! 1 \<in> set (map fst rel)"
  proof (rule ccontr)
    assume "argv E ! 1 \<notin> set (map fst rel)"
    then have "status (main E) = SysExit 1"
      using len assms(2-4) by (simp add: main_def stop_def version_exists_def)
    then show False
      using assms(1) by simp
  qed
qed

text \<open>
  C2, as stated, fails in two ways. Removing 1.0.0, which is \<open>latest\<close> and the only
  key, succeeds and leaves \<open>latest\<close> naming 1.0.0 beside an empty \<open>releases\<close>. And a
  \<open>latest\<close> that named no key before the run, as 9.9.9 here, names none after it.
\<close>

theorem latest_left_dangling:
  "latest_ok [(''latest'', JStr ''1.0.0''), (''releases'', JDict [(''1.0.0'', JDict [])]),
        (''updated_at'', JStr ''2023-01-01T00:00:00Z'')]
   \<and> status (main (run_env (manifest (JStr ''1.0.0'') [(''1.0.0'', JDict [])]) [''1.0.0''])) = Success
   \<and> exit_status (status (main (run_env (manifest (JStr ''1.0.0'') [(''1.0.0'', JDict [])])
        [''1.0.0'']))) = 0
   \<and> dumped (main (run_env (manifest (JStr ''1.0.0'') [(''1.0.0'', JDict [])]) [''1.0.0''])) =
       [JDict [(''latest'', JStr ''1.0.0''), (''releases'', JDict []),
               (''updated_at'', JStr ''2024-05-06T07:08:09Z'')]]
   \<and> \<not> latest_ok [(''latest'', JStr ''1.0.0''), (''releases'', JDict []),
               (''updated_at'', JStr ''2024-05-06T07:08:09Z'')]
   \<and> status (main (run_env (manifest (JStr ''9.9.9'') [(''1.0.0'', JDict []), (''2.0.0'', JDict [])])
        [''1.0.0''])) = Success
   \<and> dumped (main (run_env (manifest (JStr ''9.9.9'') [(''1.0.0'', JDict []), (''2.0.0'', JDict [])])
        [''1.0.0''])) =
       [JDict [(''latest'', JStr ''9.9.9''), (''releases'', JDict [(''2.0.0'', JDict [])]),
               (''updated_at'', JStr ''2024-05-06T07:08:09Z'')]]
   \<and> \<not> latest_ok [(''latest'', JStr ''9.9.9''), (''releases'', JDict [(''2.0.0'', JDict [])]),
               (''updated_at'', JStr ''2024-05-06T07:08:09Z'')]"
  by (simp add: run_defs latest_ok_def Let_def)

text \<open>
  C2, amended. After a successful run on a manifest whose \<open>latest\<close>, if set, named a
  key of \<open>releases\<close>, the \<open>latest\<close> of the dumped manifest, if set, names a key of its
  \<open>releases\<close>, unless the removed version was \<open>latest\<close> and the only key.
\<close>

theorem latest_valid_after:
  assumes "status (main E) = Success"
    and "file_content E = Some c"
    and "json_load E c = Some (JDict d)"
    and "map_of d ''releases'' = Some (JDict rel)"
    and "latest_ok d"
    and "map_of d ''latest'' = Some (JStr (argv E ! 1)) \<longrightarrow> set (map fst rel) \<noteq> {argv E ! 1}"
  shows "\<exists>d'. dumped (main E) = [JDict d'] \<and> latest_ok d'"
proof -
  let ?v = "argv E ! 1"
  let ?remaining = "filter (\<lambda>k. k \<noteq> ?v) (map fst rel)"
  note found = main_success_found [OF assms(1-4)]
  show ?thesis
  proof (cases "map_of d ''latest'' = Some (JStr ?v)")
    case True
    then have "set (map fst rel) \<noteq> {?v}"
      using assms(6) by simp
    then obtain k where "k \<in> set (map fst rel)" "k \<noteq> ?v"
      using found(2) by blast
    then have ne: "?remaining \<noteq> []"
      by (auto simp add: filter_empty_conv)
    define m where "m = last (sort_key version_key ?remaining)"
    define d' where "d' = AList.update ''updated_at'' (JStr (utcnow E))
           (AList.update ''releases'' (JDict (AList.delete ?v rel))
             (AList.update ''latest'' (JStr m) d))"
    note run = main_recompute [OF found(1) assms(2-4) refl found(2) True refl ne m_def d'_def]
    have "m \<in> set ?remaining"
      unfolding m_def using ne by (rule last_sort_key_mem)
    then have "m \<in> set (map fst (AList.delete ?v rel))"
      by (simp only: keys_delete)
    then have "latest_ok d'"
      using run(2,3) by (simp add: latest_ok_iff [OF run(3)])
    moreover have "dumped (main E) = [JDict d']"
      by (simp add: run(1) dumped_success)
    ultimately show ?thesis
      by blast
  next
    case False
    define d' where "d' = AList.update ''updated_at'' (JStr (utcnow E))
           (AList.update ''releases'' (JDict (AList.delete ?v rel)) d)"
    have run: "main E =
        \<lparr>trace = [OpenFile Read, Print Stdout (removed_line ?v), OpenFile Write, Dump (JDict d'),
                  Print Stdout updated_line],
         file_after = Some (json_dump E (JDict d') @ [CHR 0x0A]), status = Success\<rparr>"
      using main_found [OF found(1) assms(2-4) found(2) update_latest_other [OF False] assms(4)]
      by (simp add: d'_def)
    have rels: "map_of d' ''releases'' = Some (JDict (AList.delete ?v rel))"
      by (simp add: d'_def update_conv')
    have latest: "map_of d' ''latest'' = map_of d ''latest''"
      by (simp add: d'_def update_conv')
    have "latest_ok d'"
      using assms(5) False
      unfolding latest_ok_iff [OF rels] latest_ok_iff [OF assms(4)] latest keys_delete
      by auto
    moreover have "dumped (main E) = [JDict d']"
      by (simp add: run dumped_def)
    ultimately show ?thesis
      by blast
  qed
qed

theorem latest_valid_after_witness:
  "latest_ok [(''latest'', JStr ''2.0.0''), (''releases'', JDict [(''2.0.0'', JDict []), (''1.9.0'', JDict [])]),
        (''updated_at'', JStr ''2023-01-01T00:00:00Z'')]
   \<and> status (main (run_env (manifest (JStr ''2.0.0'') [(''2.0.0'', JDict []), (''1.9.0'', JDict [])])
        [''2.0.0''])) = Success
   \<and> dumped (main (run_env (manifest (JStr ''2.0.0'') [(''2.0.0'', JDict []), (''1.9.0'', JDict [])])
        [''2.0.0''])) =
       [JDict [(''latest'', JStr ''1.9.0''), (''releases'', JDict [(''1.9.0'', JDict [])]),
               (''updated_at'', JStr ''2024-05-06T07:08:09Z'')]]
   \<and> latest_ok [(''latest'', JStr ''1.9.0''), (''releases'', JDict [(''1.9.0'', JDict [])]),
               (''updated_at'', JStr ''2024-05-06T07:08:09Z'')]"
  using latest_valid_after
    [of "run_env (manifest (JStr ''2.0.0'') [(''2.0.0'', JDict []), (''1.9.0'', JDict [])]) [''2.0.0'']"
      "''old''"
      "[(''latest'', JStr ''2.0.0''), (''releases'', JDict [(''2.0.0'', JDict []), (''1.9.0'', JDict [])]),
        (''updated_at'', JStr ''2023-01-01T00:00:00Z'')]"
      "[(''2.0.0'', JDict []), (''1.9.0'', JDict [])]"]
  by (simp add: run_defs version_key_examples Let_def latest_ok_def)

section \<open>No missing key\<close>












text \<open>
  C9, as stated, fails in its first half. When \<open>releases\<close> is the list \<open>["1.0.0"]\<close>, the
  membership test of line 20 succeeds on the element, the deletion of line 41 is
  reached, and the target is not a key of any mapping: the deletion raises \<open>TypeError\<close>.
\<close>

theorem delete_reached_on_list:
  "version_exists (manifest (JStr ''2.0.0'') [] ) ''1.0.0'' = Inr False
   \<and> version_exists (JDict [(''latest'', JNull), (''releases'', JList [JStr ''1.0.0''])]) ''1.0.0'' =
       Inr True
   \<and> update_latest (JDict [(''latest'', JNull), (''releases'', JList [JStr ''1.0.0''])]) ''1.0.0'' =
       ([], Inr (JDict [(''latest'', JNull), (''releases'', JList [JStr ''1.0.0''])]))
   \<and> py_getitem (JDict [(''latest'', JNull), (''releases'', JList [JStr ''1.0.0''])]) ''releases'' =
       Inr (JList [JStr ''1.0.0''])
   \<and> remove_version (JDict [(''latest'', JNull), (''releases'', JList [JStr ''1.0.0''])]) ''1.0.0'' =
       Inl TypeError
   \<and> main (run_env (JDict [(''latest'', JNull), (''releases'', JList [JStr ''1.0.0''])]) [''1.0.0'']) =
       \<lparr>trace = [OpenFile Read], file_after = Some ''old'', status = Uncaught TypeError\<rparr>"
  by (simp add: run_defs)



end
